theory Spec2Isabelle
  imports Main
begin

section \<open>Python strings, lists and paths used by \<open>rename_images_to_timestamps.py\<close>\<close>

text \<open>
  A Python \<open>str\<close> is modelled as a \<^typ>\<open>string\<close> whose characters are the code points
  below 256 (ASCII and Latin-1); a \<open>dict\<close> of tag names to tag values as a map from
  strings to strings.  Exceptions are values of \<open>error\<close>.
\<close>

datatype error =
    FileNotFoundError
  | IndexError
  | KeyError
  | ValueError
  | UnboundLocalError
  | EOFError

type_synonym metadata = "string \<rightharpoonup> string"

text \<open>\<open>s.split(sep)\<close> for a one-character separator: never the empty list.\<close>

fun str_split :: "char \<Rightarrow> string \<Rightarrow> string list" where
  "str_split sep [] = [[]]"
| "str_split sep (c # cs) =
     (if c = sep then [] # str_split sep cs
      else (case str_split sep cs of
              [] \<Rightarrow> [[c]]
            | w # ws \<Rightarrow> (c # w) # ws))"

text \<open>\<open>s.split(sep, 1)\<close>: at most one split, at the first separator.\<close>

fun str_split_once :: "char \<Rightarrow> string \<Rightarrow> string list" where
  "str_split_once sep [] = [[]]"
| "str_split_once sep (c # cs) =
     (if c = sep then [[], cs]
      else (case str_split_once sep cs of
              [] \<Rightarrow> [[c]]
            | w # ws \<Rightarrow> (c # w) # ws))"

text \<open>\<open>xs[-k]\<close> for \<open>k \<ge> 1\<close>: Python raises \<open>IndexError\<close> when the list is shorter.\<close>

definition index_from_end :: "'a list \<Rightarrow> nat \<Rightarrow> error + 'a" where
  "index_from_end xs k =
     (if 1 \<le> k \<and> k \<le> length xs then Inr (xs ! (length xs - k)) else Inl IndexError)"

text \<open>
  \<open>str.lower()\<close>: the letters A to Z and the capital letters of Latin-1 (U+00C0 to
  U+00DE without the multiplication sign U+00D7) move to their small letters, 32 code
  points up; every other code point below 256 stays.
\<close>

definition latin1_capitals :: "char list" where
  "latin1_capitals =
     [CHR 0xC0, CHR 0xC1, CHR 0xC2, CHR 0xC3, CHR 0xC4, CHR 0xC5,
      CHR 0xC6, CHR 0xC7, CHR 0xC8, CHR 0xC9, CHR 0xCA, CHR 0xCB,
      CHR 0xCC, CHR 0xCD, CHR 0xCE, CHR 0xCF, CHR 0xD0, CHR 0xD1,
      CHR 0xD2, CHR 0xD3, CHR 0xD4, CHR 0xD5, CHR 0xD6, CHR 0xD8,
      CHR 0xD9, CHR 0xDA, CHR 0xDB, CHR 0xDC, CHR 0xDD, CHR 0xDE]"

definition latin1_smalls :: "char list" where
  "latin1_smalls =
     [CHR 0xE0, CHR 0xE1, CHR 0xE2, CHR 0xE3, CHR 0xE4, CHR 0xE5,
      CHR 0xE6, CHR 0xE7, CHR 0xE8, CHR 0xE9, CHR 0xEA, CHR 0xEB,
      CHR 0xEC, CHR 0xED, CHR 0xEE, CHR 0xEF, CHR 0xF0, CHR 0xF1,
      CHR 0xF2, CHR 0xF3, CHR 0xF4, CHR 0xF5, CHR 0xF6, CHR 0xF8,
      CHR 0xF9, CHR 0xFA, CHR 0xFB, CHR 0xFC, CHR 0xFD, CHR 0xFE]"

definition char_lower :: "char \<Rightarrow> char" where
  "char_lower c =
     (case map_of (zip (''ABCDEFGHIJKLMNOPQRSTUVWXYZ'' @ latin1_capitals)
                       (''abcdefghijklmnopqrstuvwxyz'' @ latin1_smalls)) c of
        None \<Rightarrow> c
      | Some l \<Rightarrow> l)"

text \<open>
  \<open>str.upper()\<close> on the letters a to z.  The program compares the upper-cased answer
  of the operator with M, C and O only, and no other character has one of these three
  as its capital.
\<close>

definition char_upper :: "char \<Rightarrow> char" where
  "char_upper c =
     (case map_of (zip ''abcdefghijklmnopqrstuvwxyz'' ''ABCDEFGHIJKLMNOPQRSTUVWXYZ'') c of
        None \<Rightarrow> c
      | Some u \<Rightarrow> u)"

definition str_lower :: "string \<Rightarrow> string" where
  "str_lower s = map char_lower s"

definition str_upper :: "string \<Rightarrow> string" where
  "str_upper s = map char_upper s"

text \<open>\<open>str(i)\<close> for a non-negative integer: its decimal digits.\<close>

definition digit_char :: "nat \<Rightarrow> char" where
  "digit_char d = ''0123456789'' ! (d mod 10)"

fun str_nat :: "nat \<Rightarrow> string" where
  "str_nat n = (if n < 10 then [digit_char n] else str_nat (n div 10) @ [digit_char (n mod 10)])"

declare str_nat.simps [simp del]

text \<open>
  \<open>os.path.join(a, b)\<close>, \<open>os.path.dirname(p)\<close> and \<open>os.path.basename(p)\<close> as
  \<open>posixpath\<close> defines them (the separator the program itself writes is \<open>/\<close>).
\<close>

definition os_path_join :: "string \<Rightarrow> string \<Rightarrow> string" where
  "os_path_join a b =
     (if b \<noteq> [] \<and> hd b = CHR ''/'' then b
      else if a = [] \<or> last a = CHR ''/'' then a @ b
      else a @ ''/'' @ b)"

definition path_head :: "string \<Rightarrow> string" where
  "path_head p = rev (dropWhile (\<lambda>c. c \<noteq> CHR ''/'') (rev p))"

definition rstrip_sep :: "string \<Rightarrow> string" where
  "rstrip_sep s = rev (dropWhile (\<lambda>c. c = CHR ''/'') (rev s))"

definition os_path_dirname :: "string \<Rightarrow> string" where
  "os_path_dirname p =
     (let head = path_head p in
      if head \<noteq> [] \<and> \<not> list_all (\<lambda>c. c = CHR ''/'') head then rstrip_sep head else head)"

definition os_path_basename :: "string \<Rightarrow> string" where
  "os_path_basename p = rev (takeWhile (\<lambda>c. c \<noteq> CHR ''/'') (rev p))"

section \<open>File enumeration\<close>

definition multimediaFormats :: "string list" where
  "multimediaFormats = [''png'', ''jpg'', ''jpeg'', ''m4v'', ''mov'', ''mp4'']"

text \<open>
  \<open>list_files\<close>: the result of \<open>os.walk(startpath)\<close> is a parameter, a list of
  \<open>(root, dirs, files)\<close>; the two nested loops append to \<open>file_list\<close>.
\<close>

fun list_files_in :: "string \<Rightarrow> string list \<Rightarrow> string list \<Rightarrow> string list" where
  "list_files_in root [] file_list = file_list"
| "list_files_in root (file # files) file_list =
     list_files_in root files
       (if str_lower (last (str_split CHR ''.'' file)) \<in> set multimediaFormats
        then file_list @ [os_path_join root file]
        else file_list)"

fun list_files_walk :: "(string \<times> string list \<times> string list) list \<Rightarrow> string list \<Rightarrow> string list" where
  "list_files_walk [] file_list = file_list"
| "list_files_walk ((root, dirs, files) # walk) file_list =
     list_files_walk walk (list_files_in root files file_list)"

definition list_files :: "(string \<times> string list \<times> string list) list \<Rightarrow> string list" where
  "list_files walk = list_files_walk walk []"

section \<open>Classification by \<open>EXIF:DateTimeOriginal\<close>\<close>

text \<open>
  \<open>find_files_with_datetimeoriginal_metadata\<close>: the metadata collaborator
  \<open>et.get_metadata\<close> is a parameter; the loop appends each record to one of the two
  lists.
\<close>

fun classify_loop :: "metadata list \<Rightarrow> metadata list \<times> metadata list \<Rightarrow> metadata list \<times> metadata list" where
  "classify_loop [] (valid_files, invalid_files) = (valid_files, invalid_files)"
| "classify_loop (data # metadata) (valid_files, invalid_files) =
     classify_loop metadata
       (case data ''EXIF:DateTimeOriginal'' of
          None \<Rightarrow> (valid_files, invalid_files @ [data])
        | Some v \<Rightarrow>
            if v \<noteq> ''0000:00:00 00:00:00'' then (valid_files @ [data], invalid_files)
            else (valid_files, invalid_files @ [data]))"

definition find_files_with_datetimeoriginal_metadata ::
  "(string list \<Rightarrow> metadata list) \<Rightarrow> string list \<Rightarrow> metadata list \<times> metadata list" where
  "find_files_with_datetimeoriginal_metadata get_metadata paths =
     classify_loop (get_metadata paths) ([], [])"

text \<open>The test the loop applies to a record, as the source writes it.\<close>

definition has_datetimeoriginal :: "metadata \<Rightarrow> bool" where
  "has_datetimeoriginal data =
     (case data ''EXIF:DateTimeOriginal'' of
        None \<Rightarrow> False
      | Some v \<Rightarrow> v \<noteq> ''0000:00:00 00:00:00'')"

text \<open>
  The decision rule in the specification's words: the record contains a non-empty
  \<open>EXIF:DateTimeOriginal\<close> whose value is not the sentinel.
\<close>

definition valid_per_spec :: "metadata \<Rightarrow> bool" where
  "valid_per_spec data =
     (case data ''EXIF:DateTimeOriginal'' of
        None \<Rightarrow> False
      | Some v \<Rightarrow> v \<noteq> [] \<and> v \<noteq> ''0000:00:00 00:00:00'')"

section \<open>Timestamps\<close>

record datetime =
  year :: nat
  month :: nat
  day :: nat
  hour :: nat
  minute :: nat
  second :: nat

text \<open>
  \<open>datetime.strptime(date_string, "%Y:%m:%d %H:%M:%S")\<close>.  The library turns the format
  into the regular expression
  \<^verbatim>\<open>(\d\d\d\d):(1[0-2]|0[1-9]|[1-9]):(3[0-1]|[1-2]\d|0[1-9]|[1-9]| [1-9])\s+(2[0-3]|[0-1]\d|\d):([0-5]\d|\d):(6[0-1]|[0-5]\d|\d)\<close>,
  matches it at the start of the string, raises \<open>ValueError\<close> when it does not match or
  when characters remain, and then builds the \<open>datetime\<close>, whose constructor raises
  \<open>ValueError\<close> for a field out of range.  Every directive is followed by a character
  that is not a digit, so trying its two-digit alternatives before its one-digit
  alternative is all the backtracking there is.
\<close>

definition digit_value :: "char \<Rightarrow> nat option" where
  "digit_value c = map_of (zip ''0123456789'' [0, 1, 2, 3, 4, 5, 6, 7, 8, 9]) c"

text \<open>The code points below 256 that \<open>\s\<close> matches in a \<open>str\<close> pattern.\<close>

definition is_space :: "char \<Rightarrow> bool" where
  "is_space c = (c \<in> set [CHR '' '', CHR 0x09, CHR 0x0A, CHR 0x0B, CHR 0x0C, CHR 0x0D,
                            CHR 0x1C, CHR 0x1D, CHR 0x1E, CHR 0x1F, CHR 0x85, CHR 0xA0])"

definition directive :: "(nat \<Rightarrow> nat \<Rightarrow> bool) \<Rightarrow> (nat \<Rightarrow> bool) \<Rightarrow> string \<Rightarrow> (nat \<times> string) option" where
  "directive two one s =
     (case s of
        [] \<Rightarrow> None
      | a # s' \<Rightarrow>
          (case digit_value a of
             None \<Rightarrow> None
           | Some x \<Rightarrow>
               (case s' of
                  [] \<Rightarrow> if one x then Some (x, s') else None
                | b # s'' \<Rightarrow>
                    (case digit_value b of
                       None \<Rightarrow> if one x then Some (x, s') else None
                     | Some y \<Rightarrow>
                         if two x y then Some (10 * x + y, s'')
                         else if one x then Some (x, s')
                         else None))))"

definition directive_Y :: "string \<Rightarrow> (nat \<times> string) option" where
  "directive_Y s =
     (case s of
        a # b # c # d # rest \<Rightarrow>
          (case (digit_value a, digit_value b, digit_value c, digit_value d) of
             (Some x3, Some x2, Some x1, Some x0) \<Rightarrow>
               Some (1000 * x3 + 100 * x2 + 10 * x1 + x0, rest)
           | _ \<Rightarrow> None)
      | _ \<Rightarrow> None)"

definition directive_m :: "string \<Rightarrow> (nat \<times> string) option" where
  "directive_m = directive (\<lambda>x y. (x = 1 \<and> y \<le> 2) \<or> (x = 0 \<and> 1 \<le> y)) (\<lambda>x. 1 \<le> x)"

definition directive_d :: "string \<Rightarrow> (nat \<times> string) option" where
  "directive_d s =
     (case directive (\<lambda>x y. (x = 3 \<and> y \<le> 1) \<or> (1 \<le> x \<and> x \<le> 2) \<or> (x = 0 \<and> 1 \<le> y))
             (\<lambda>x. 1 \<le> x) s of
        Some r \<Rightarrow> Some r
      | None \<Rightarrow>
          (case s of
             a # b # rest \<Rightarrow>
               (case digit_value b of
                  Some y \<Rightarrow> if a = CHR '' '' \<and> 1 \<le> y then Some (y, rest) else None
                | None \<Rightarrow> None)
           | _ \<Rightarrow> None))"

definition directive_H :: "string \<Rightarrow> (nat \<times> string) option" where
  "directive_H = directive (\<lambda>x y. (x = 2 \<and> y \<le> 3) \<or> x \<le> 1) (\<lambda>x. True)"

definition directive_M :: "string \<Rightarrow> (nat \<times> string) option" where
  "directive_M = directive (\<lambda>x y. x \<le> 5) (\<lambda>x. True)"

definition directive_S :: "string \<Rightarrow> (nat \<times> string) option" where
  "directive_S = directive (\<lambda>x y. (x = 6 \<and> y \<le> 1) \<or> x \<le> 5) (\<lambda>x. True)"

definition colon :: "string \<Rightarrow> string option" where
  "colon s = (case s of [] \<Rightarrow> None | c # rest \<Rightarrow> if c = CHR '':'' then Some rest else None)"

definition spaces :: "string \<Rightarrow> string option" where
  "spaces s =
     (case s of
        [] \<Rightarrow> None
      | c # rest \<Rightarrow> if is_space c then Some (dropWhile is_space rest) else None)"

definition strptime_match :: "string \<Rightarrow> datetime option" where
  "strptime_match s0 =
     Option.bind (directive_Y s0) (\<lambda>(Y, s1).
     Option.bind (colon s1) (\<lambda>s2.
     Option.bind (directive_m s2) (\<lambda>(m, s3).
     Option.bind (colon s3) (\<lambda>s4.
     Option.bind (directive_d s4) (\<lambda>(d, s5).
     Option.bind (spaces s5) (\<lambda>s6.
     Option.bind (directive_H s6) (\<lambda>(H, s7).
     Option.bind (colon s7) (\<lambda>s8.
     Option.bind (directive_M s8) (\<lambda>(M, s9).
     Option.bind (colon s9) (\<lambda>s10.
     Option.bind (directive_S s10) (\<lambda>(S, s11).
       if s11 = [] then
         Some \<lparr>year = Y, month = m, day = d, hour = H, minute = M, second = S\<rparr>
       else None)))))))))))"

definition is_leap :: "nat \<Rightarrow> bool" where
  "is_leap y = (y mod 4 = 0 \<and> (y mod 400 = 0 \<or> y mod 100 \<noteq> 0))"

definition days_in_month :: "nat \<Rightarrow> nat \<Rightarrow> nat" where
  "days_in_month y m =
     (if m = 2 then (if is_leap y then 29 else 28)
      else if m \<in> set [4, 6, 9, 11] then 30
      else 31)"

definition valid_datetime :: "datetime \<Rightarrow> bool" where
  "valid_datetime dt =
     (1 \<le> year dt \<and> year dt \<le> 9999 \<and> 1 \<le> month dt \<and> month dt \<le> 12 \<and>
      1 \<le> day dt \<and> day dt \<le> days_in_month (year dt) (month dt) \<and>
      hour dt \<le> 23 \<and> minute dt \<le> 59 \<and> second dt \<le> 59)"

definition get_datetime :: "string \<Rightarrow> error + datetime" where
  "get_datetime date_string =
     (case strptime_match date_string of
        None \<Rightarrow> Inl ValueError
      | Some dt \<Rightarrow> if valid_datetime dt then Inr dt else Inl ValueError)"

text \<open>\<open>date_string.split("+", 1)[0]\<close>; the split is never empty (\<open>str_split_once_not_Nil\<close>).\<close>

definition cut_out_time_zone :: "string \<Rightarrow> string" where
  "cut_out_time_zone date_string = hd (str_split_once CHR ''+'' date_string)"

text \<open>
  \<open>dt.strftime("%Y%m%d_%H%M%S")\<close>: every field in decimal, padded with zeros to four
  digits for the year and to two for the others (a C library that does not pad the
  year differs for years before 1000 only).
\<close>

definition zero_pad :: "nat \<Rightarrow> nat \<Rightarrow> string" where
  "zero_pad width n = replicate (width - length (str_nat n)) CHR ''0'' @ str_nat n"

definition get_filename_from_datetime :: "datetime \<Rightarrow> string" where
  "get_filename_from_datetime dt =
     zero_pad 4 (year dt) @ zero_pad 2 (month dt) @ zero_pad 2 (day dt) @ ''_'' @
     zero_pad 2 (hour dt) @ zero_pad 2 (minute dt) @ zero_pad 2 (second dt)"

text \<open>\<open>file["SourceFile"]\<close> raises \<open>KeyError\<close> when the record has no such tag.\<close>

definition get_new_filename :: "metadata \<Rightarrow> datetime \<Rightarrow> error + string" where
  "get_new_filename file dt =
     (case file ''SourceFile'' of
        None \<Rightarrow> Inl KeyError
      | Some source_file \<Rightarrow>
          Inr (os_path_dirname source_file @ ''/'' @ get_filename_from_datetime dt @ ''.'' @
               str_lower (last (str_split CHR ''.'' source_file))))"

section \<open>The file system and the operator\<close>

text \<open>
  The disk is a finite listing of regular files, path and byte content, with no path
  twice.  Directories are not modelled: two spellings of one path are two paths, and a
  rename into a directory that does not exist, where \<open>os.rename\<close> raises, succeeds
  here.  \<open>stdin\<close> holds the lines the operator will
  type.  A call either returns or raises, and the world it leaves behind is kept in
  both cases.
\<close>

record world =
  files :: "(string \<times> string) list"
  stdin :: "string list"

datatype outcome = Returned world | Raised error world

definition os_path_exists :: "world \<Rightarrow> string \<Rightarrow> bool" where
  "os_path_exists w path = (map_of (files w) path \<noteq> None)"

text \<open>\<open>os.remove(path)\<close>: \<open>FileNotFoundError\<close> when there is no such file.\<close>

definition os_remove :: "world \<Rightarrow> string \<Rightarrow> error + world" where
  "os_remove w path =
     (case map_of (files w) path of
        None \<Rightarrow> Inl FileNotFoundError
      | Some content \<Rightarrow> Inr (w\<lparr>files := filter (\<lambda>entry. fst entry \<noteq> path) (files w)\<rparr>))"

text \<open>
  \<open>os.rename(src, dst)\<close>: \<open>FileNotFoundError\<close> when \<open>src\<close> is missing; the content moves
  to \<open>dst\<close>.  The program calls it only when \<open>dst\<close> does not exist.
\<close>

definition os_rename :: "world \<Rightarrow> string \<Rightarrow> string \<Rightarrow> error + world" where
  "os_rename w src dst =
     (case map_of (files w) src of
        None \<Rightarrow> Inl FileNotFoundError
      | Some content \<Rightarrow>
          Inr (w\<lparr>files := filter (\<lambda>entry. fst entry \<noteq> src \<and> fst entry \<noteq> dst) (files w)
                              @ [(dst, content)]\<rparr>))"

text \<open>\<open>files_are_identical\<close>: both files are opened, the first one first, and read whole.\<close>

definition files_are_identical :: "world \<Rightarrow> string \<Rightarrow> string \<Rightarrow> error + bool" where
  "files_are_identical w file1_path file2_path =
     (case map_of (files w) file1_path of
        None \<Rightarrow> Inl FileNotFoundError
      | Some content1 \<Rightarrow>
          (case map_of (files w) file2_path of
             None \<Rightarrow> Inl FileNotFoundError
           | Some content2 \<Rightarrow> Inr (content1 = content2)))"

section \<open>Renaming\<close>

text \<open>
  The name the loop builds when \<open>i \<noteq> 1\<close>:
  \<open>"." + new_filename.split(".")[-2] + " (" + str(i) + ")." + new_filename.split(".")[-1]\<close>.
\<close>

definition numbered_filename :: "string \<Rightarrow> nat \<Rightarrow> error + string" where
  "numbered_filename new_filename i =
     (case index_from_end (str_split CHR ''.'' new_filename) 2 of
        Inl e \<Rightarrow> Inl e
      | Inr stem \<Rightarrow>
          Inr (''.'' @ stem @ '' ('' @ str_nat i @ '').'' @
               last (str_split CHR ''.'' new_filename)))"

text \<open>
  The \<open>while True\<close> loop of \<open>change_filename_until_success\<close>, one call per iteration;
  \<open>new_filename\<close> and \<open>i\<close> are the loop's variables.  The loop has no bound, so a run
  that never leaves it is the value \<open>None\<close>.
\<close>

partial_function (option) change_filename_loop ::
  "string \<Rightarrow> string \<Rightarrow> nat \<Rightarrow> world \<Rightarrow> outcome option" where
  "change_filename_loop old_filename new_filename i w =
     (case (if i \<noteq> 1 then numbered_filename new_filename i else Inr new_filename) of
        Inl e \<Rightarrow> Some (Raised e w)
      | Inr new_filename' \<Rightarrow>
          if os_path_exists w new_filename' then
            (case files_are_identical w old_filename new_filename' of
               Inl e \<Rightarrow> Some (Raised e w)
             | Inr identical \<Rightarrow>
                 if identical then
                   (case os_remove w old_filename of
                      Inl e \<Rightarrow> Some (Raised e w)
                    | Inr w' \<Rightarrow> change_filename_loop old_filename new_filename' i w')
                 else change_filename_loop old_filename new_filename' (i + 1) w)
          else if os_path_exists w old_filename then
            (case os_rename w old_filename new_filename' of
               Inl e \<Rightarrow> Some (Raised e w)
             | Inr w' \<Rightarrow> Some (Returned w'))
          else Some (Returned w))"

declare change_filename_loop.simps [code]

definition change_filename_until_success :: "string \<Rightarrow> string \<Rightarrow> world \<Rightarrow> outcome option" where
  "change_filename_until_success old_filename new_filename w =
     change_filename_loop old_filename new_filename 1 w"

definition rename_file_if_necessary :: "string \<Rightarrow> string \<Rightarrow> world \<Rightarrow> outcome option" where
  "rename_file_if_necessary old_filename new_filename w =
     (if old_filename = new_filename then Some (Returned w)
      else change_filename_until_success old_filename new_filename w)"

section \<open>Fallback dates\<close>

text \<open>
  A local variable of a Python function that no statement has assigned yet is unbound,
  and reading it raises \<open>UnboundLocalError\<close>: a local is an option, \<open>None\<close> while
  unbound.
\<close>

definition read_local :: "'a option \<Rightarrow> error + 'a" where
  "read_local v = (case v of None \<Rightarrow> Inl UnboundLocalError | Some x \<Rightarrow> Inr x)"

text \<open>
  \<open>rename_file_if_necessary(file["SourceFile"], get_new_filename(file, dt))\<close> where \<open>dt\<close>
  is a local variable: the arguments are evaluated from left to right, then the call
  is made.
\<close>

definition rename_to_date :: "metadata \<Rightarrow> datetime option \<Rightarrow> world \<Rightarrow> outcome option" where
  "rename_to_date file dt_local w =
     (case file ''SourceFile'' of
        None \<Rightarrow> Some (Raised KeyError w)
      | Some source_file \<Rightarrow>
          (case read_local dt_local of
             Inl e \<Rightarrow> Some (Raised e w)
           | Inr dt \<Rightarrow>
               (case get_new_filename file dt of
                  Inl e \<Rightarrow> Some (Raised e w)
                | Inr new_filename \<Rightarrow> rename_file_if_necessary source_file new_filename w)))"

text \<open>
  The prompt loop: \<open>input\<close> takes the next line of \<open>stdin\<close> and raises \<open>EOFError\<close> when
  there is none; any answer but M, C and O asks again.
\<close>

fun choose_loop ::
  "metadata \<Rightarrow> datetime option \<Rightarrow> datetime option \<Rightarrow> string list \<Rightarrow> world \<Rightarrow> outcome option" where
  "choose_loop file modify_datetime create_datetime [] w = Some (Raised EOFError (w\<lparr>stdin := []\<rparr>))"
| "choose_loop file modify_datetime create_datetime (option # rest) w =
     (if str_upper option = ''M'' then rename_to_date file modify_datetime (w\<lparr>stdin := rest\<rparr>)
      else if str_upper option = ''C'' then rename_to_date file create_datetime (w\<lparr>stdin := rest\<rparr>)
      else if str_upper option = ''O'' then
        (case file ''SourceFile'' of
           None \<Rightarrow> Some (Raised KeyError (w\<lparr>stdin := rest\<rparr>))
         | Some source_file \<Rightarrow> Some (Returned (w\<lparr>stdin := rest\<rparr>)))
      else choose_loop file modify_datetime create_datetime rest (w\<lparr>stdin := rest\<rparr>))"

text \<open>
  \<open>rename_file_if_any_date_metadata_exists\<close>.  \<open>modify_datetime\<close> and \<open>create_datetime\<close>
  are unbound on entry and assigned in the first branch only (to \<open>modify_dt\<close> and
  \<open>create_dt\<close> here); in the two \<open>elif\<close> branches they are still unbound.
\<close>

definition rename_file_if_any_date_metadata_exists ::
  "metadata \<Rightarrow> string option \<Rightarrow> string option \<Rightarrow> world \<Rightarrow> outcome option" where
  "rename_file_if_any_date_metadata_exists file file_modify_date file_create_date w =
     (let modify_datetime = None; create_datetime = None in
      case file_modify_date of
        Some modify_date \<Rightarrow>
          (case file_create_date of
             Some create_date \<Rightarrow>
               (case get_datetime modify_date of
                  Inl e \<Rightarrow> Some (Raised e w)
                | Inr modify_dt \<Rightarrow>
                    (case get_datetime create_date of
                       Inl e \<Rightarrow> Some (Raised e w)
                     | Inr create_dt \<Rightarrow>
                         (case file ''SourceFile'' of
                            None \<Rightarrow> Some (Raised KeyError w)
                          | Some source_file \<Rightarrow>
                              choose_loop file (Some modify_dt) (Some create_dt) (stdin w) w)))
           | None \<Rightarrow> rename_to_date file modify_datetime w)
      | None \<Rightarrow>
          (case file_create_date of
             Some create_date \<Rightarrow> rename_to_date file create_datetime w
           | None \<Rightarrow>
               (case file ''SourceFile'' of
                  None \<Rightarrow> Some (Raised KeyError w)
                | Some source_file \<Rightarrow> Some (Returned w))))"

section \<open>The main program\<close>

text \<open>
  The loop over \<open>valid_files\<close>.  \<open>new_filename\<close> is a local variable of \<open>main\<close>: unbound
  before the first assignment, and left as it is when \<open>get_datetime\<close> raises the
  \<open>ValueError\<close> that the \<open>try\<close> statement catches.
\<close>

fun valid_files_loop :: "metadata list \<Rightarrow> string option \<Rightarrow> world \<Rightarrow> outcome option" where
  "valid_files_loop [] new_filename w = Some (Returned w)"
| "valid_files_loop (file # rest) new_filename w =
     (case file ''SourceFile'' of
        None \<Rightarrow> Some (Raised KeyError w)
      | Some old_filename \<Rightarrow>
          (case file ''EXIF:DateTimeOriginal'' of
             None \<Rightarrow> Some (Raised KeyError w)
           | Some original_date \<Rightarrow>
               (case (case get_datetime original_date of
                        Inl e \<Rightarrow> if e = ValueError then Inr new_filename else Inl e
                      | Inr dt \<Rightarrow> map_sum id Some (get_new_filename file dt)) of
                  Inl e \<Rightarrow> Some (Raised e w)
                | Inr new_filename' \<Rightarrow>
                    (case read_local new_filename' of
                       Inl e \<Rightarrow> Some (Raised e w)
                     | Inr target \<Rightarrow>
                         (case rename_file_if_necessary old_filename target w of
                            None \<Rightarrow> None
                          | Some (Raised e w') \<Rightarrow> Some (Raised e w')
                          | Some (Returned w') \<Rightarrow> valid_files_loop rest new_filename' w')))))"

text \<open>The loop over \<open>invalid_files\<close>.\<close>

fun invalid_files_loop :: "metadata list \<Rightarrow> world \<Rightarrow> outcome option" where
  "invalid_files_loop [] w = Some (Returned w)"
| "invalid_files_loop (file # rest) w =
     (case rename_file_if_any_date_metadata_exists file
             (map_option cut_out_time_zone (file ''File:FileModifyDate''))
             (map_option cut_out_time_zone (file ''File:FileCreateDate'')) w of
        None \<Rightarrow> None
      | Some (Raised e w') \<Rightarrow> Some (Raised e w')
      | Some (Returned w') \<Rightarrow> invalid_files_loop rest w')"

text \<open>
  \<open>main\<close>, without the logging: the directory walk and the metadata collaborator are
  parameters.
\<close>

definition main ::
  "(string \<times> string list \<times> string list) list \<Rightarrow> (string list \<Rightarrow> metadata list) \<Rightarrow> world \<Rightarrow> outcome option" where
  "main walk get_metadata w =
     (case find_files_with_datetimeoriginal_metadata get_metadata (list_files walk) of
        (valid_files, invalid_files) \<Rightarrow>
          (case valid_files_loop valid_files None w of
             None \<Rightarrow> None
           | Some (Raised e w') \<Rightarrow> Some (Raised e w')
           | Some (Returned w') \<Rightarrow> invalid_files_loop invalid_files w'))"

section \<open>Collaborator used in the examples\<close>

text \<open>
  A metadata collaborator for a directory whose files were all taken in the same second:
  for every path it is given it reports the path itself as \<open>SourceFile\<close> and the same
  \<open>EXIF:DateTimeOriginal\<close>.
\<close>

definition same_capture_time :: "string list \<Rightarrow> metadata list" where
  "same_capture_time paths =
     map (\<lambda>path. [''SourceFile'' \<mapsto> path,
                   ''EXIF:DateTimeOriginal'' \<mapsto> ''2021:05:11 12:34:56'']) paths"

section \<open>Properties\<close>

subsection \<open>Splitting strings\<close>

lemma str_split_not_Nil: "str_split sep s \<noteq> []"
  by (induction s) (auto split: list.splits)

lemma str_split_no_sep: "sep \<notin> set s \<Longrightarrow> str_split sep s = [s]"
  by (induction s) auto

lemma str_split_at_sep:
  "sep \<notin> set a \<Longrightarrow> str_split sep (a @ sep # b) = a # str_split sep b"
  by (induction a) (auto split: list.splits)

lemma str_split_once_not_Nil: "str_split_once sep s \<noteq> []"
  by (induction s) (auto split: list.splits)

lemma str_split_once_no_sep: "sep \<notin> set s \<Longrightarrow> str_split_once sep s = [s]"
  by (induction s) auto

lemma str_split_once_at_sep:
  "sep \<notin> set d \<Longrightarrow> str_split_once sep (d @ sep # rest) = [d, rest]"
  by (induction d) auto

subsection \<open>The collision-safe renamer\<close>

lemma map_of_filter_other:
  "p \<noteq> q \<Longrightarrow> map_of (filter (\<lambda>entry. fst entry \<noteq> q) fs) p = map_of fs p"
  by (induction fs) auto

lemma map_of_filter_same: "map_of (filter (\<lambda>entry. fst entry \<noteq> q) fs) q = None"
  by (induction fs) auto

text \<open>
  What the loop gets right: a free target takes the file and nothing is overwritten; a
  source that is gone is no error; and when the target \<open>./stem.ext\<close> is taken by
  another content and \<open>./stem (2).ext\<close> is free, the file is renamed to the latter.
\<close>

lemma free_target_renames:
  assumes "map_of (files w) new_filename = None"
    and "map_of (files w) old_filename = Some content"
  shows "change_filename_until_success old_filename new_filename w =
           Some (Returned
                  (w\<lparr>files := filter (\<lambda>entry. fst entry \<noteq> old_filename \<and> fst entry \<noteq> new_filename)
                                    (files w) @ [(new_filename, content)]\<rparr>))"
  using assms
  apply (simp add: change_filename_until_success_def)
  apply (subst change_filename_loop.simps)
  apply (simp add: os_path_exists_def os_rename_def)
  done

lemma missing_source_returns:
  assumes "map_of (files w) new_filename = None"
    and "map_of (files w) old_filename = None"
  shows "change_filename_until_success old_filename new_filename w = Some (Returned w)"
  using assms
  apply (simp add: change_filename_until_success_def)
  apply (subst change_filename_loop.simps)
  apply (simp add: os_path_exists_def)
  done

lemma numbered_filename_dot_slash:
  assumes "CHR ''.'' \<notin> set stem" and "CHR ''.'' \<notin> set ext"
  shows "numbered_filename (''.'' @ stem @ ''.'' @ ext) i =
           Inr (''.'' @ stem @ '' ('' @ str_nat i @ '').'' @ ext)"
proof -
  have "str_split CHR ''.'' (''.'' @ stem @ ''.'' @ ext) = [[], stem, ext]"
    using assms str_split_at_sep [of "CHR ''.''" stem ext] by (simp add: str_split_no_sep)
  then show ?thesis by (simp add: numbered_filename_def index_from_end_def)
qed

lemma first_retry_renames:
  assumes "CHR ''.'' \<notin> set stem" and "CHR ''.'' \<notin> set ext"
    and "map_of (files w) old_filename = Some content"
    and "map_of (files w) (''.'' @ stem @ ''.'' @ ext) = Some other"
    and "other \<noteq> content"
    and "map_of (files w) (''.'' @ stem @ '' (2).'' @ ext) = None"
  shows "change_filename_until_success old_filename (''.'' @ stem @ ''.'' @ ext) w =
           Some (Returned
                  (w\<lparr>files := filter (\<lambda>entry. fst entry \<noteq> old_filename \<and>
                                               fst entry \<noteq> ''.'' @ stem @ '' (2).'' @ ext)
                                    (files w) @ [(''.'' @ stem @ '' (2).'' @ ext, content)]\<rparr>))"
proof -
  let ?new = "''.'' @ stem @ ''.'' @ ext"
  let ?cand = "''.'' @ stem @ '' (2).'' @ ext"
  have two: "str_nat 2 = ''2''" by code_simp
  have n: "numbered_filename ?new 2 = Inr ?cand"
    using numbered_filename_dot_slash [OF assms(1,2), of 2] by (simp add: two)
  have step2: "change_filename_loop old_filename ?new 2 w =
      Some (Returned (w\<lparr>files := filter (\<lambda>entry. fst entry \<noteq> old_filename \<and> fst entry \<noteq> ?cand)
                                    (files w) @ [(?cand, content)]\<rparr>))"
    using assms(3,6) n
    by (subst change_filename_loop.simps) (simp add: os_path_exists_def os_rename_def)
  have step1: "change_filename_loop old_filename ?new 1 w =
      change_filename_loop old_filename ?new 2 w"
    using assms(3,4,5)
    by (subst change_filename_loop.simps)
       (simp add: os_path_exists_def files_are_identical_def numeral_2_eq_2)
  show ?thesis
    unfolding change_filename_until_success_def by (simp only: step1 step2)
qed

text \<open>
  C1.  The claim is that no run of the routine destroys a file's content.  The code
  does: when the target is taken by a file of different content and the source already
  carries the name of the first retry, the loop compares the source with itself, finds
  it identical and removes it.  Here the disk holds content \<open>A\<close> under the target name
  and content \<open>B\<close> under the source name; the call returns, and \<open>B\<close> is gone.
\<close>

theorem self_collision_destroys_content:
  "rename_file_if_necessary ''./images/20210511_123456 (2).jpg'' ''./images/20210511_123456.jpg''
     \<lparr>files = [(''./images/20210511_123456.jpg'', ''A''),
                (''./images/20210511_123456 (2).jpg'', ''B'')], stdin = []\<rparr>
   = Some (Returned \<lparr>files = [(''./images/20210511_123456.jpg'', ''A'')], stdin = []\<rparr>)"
  by code_simp

text \<open>
  Whenever the target exists with the content of the source, under another path, the
  source is removed and the target is left as it was, but the loop goes on: the target
  still exists, the comparison opens the removed source, and the call ends in
  \<open>FileNotFoundError\<close>.
\<close>

lemma duplicate_target_raises:
  assumes "old_filename \<noteq> new_filename"
    and "map_of (files w) old_filename = Some content"
    and "map_of (files w) new_filename = Some content"
  shows "change_filename_until_success old_filename new_filename w =
           Some (Raised FileNotFoundError
                  (w\<lparr>files := filter (\<lambda>entry. fst entry \<noteq> old_filename) (files w)\<rparr>))"
  using assms
  apply (simp add: change_filename_until_success_def)
  apply (subst change_filename_loop.simps)
  apply (simp add: os_path_exists_def files_are_identical_def os_remove_def)
  apply (subst change_filename_loop.simps)
  apply (simp add: os_path_exists_def files_are_identical_def map_of_filter_other
      map_of_filter_same)
  done

text \<open>
  C2.  The claim is that, when the candidate exists with the content of the source, the
  routine deletes the source, leaves the candidate untouched and stops.  The code
  deletes the source and leaves the candidate untouched, but it does not stop: there is
  no \<open>break\<close> after \<open>os.remove\<close>, the next iteration finds the candidate again and
  \<open>files_are_identical\<close> raises \<open>FileNotFoundError\<close> on the deleted source.
\<close>

theorem duplicate_target_does_not_stop:
  "change_filename_until_success ''./images/IMG_0001.jpg'' ''./images/20210511_123456.jpg''
     \<lparr>files = [(''./images/IMG_0001.jpg'', ''A''),
                (''./images/20210511_123456.jpg'', ''A'')], stdin = []\<rparr>
   = Some (Raised FileNotFoundError
            \<lparr>files = [(''./images/20210511_123456.jpg'', ''A'')], stdin = []\<rparr>)"
  by code_simp

text \<open>
  C3.  The claim is that every retry inserts the counter before the extension of the
  original target, so that the final name is the timestamp, one counter and the
  extension.  The code builds each retry from the previous candidate: with the target
  and its \<open>(2)\<close> name both taken by other contents, the file ends up under a name with
  the two counters \<open>(2) (3)\<close>, and no file is named with \<open>(3)\<close> alone.
\<close>

theorem second_retry_accumulates_counters:
  "change_filename_until_success ''./images/IMG_0003.jpg'' ''./images/20210511_123456.jpg''
     \<lparr>files = [(''./images/20210511_123456.jpg'', ''A''),
                (''./images/20210511_123456 (2).jpg'', ''B''),
                (''./images/IMG_0003.jpg'', ''C'')], stdin = []\<rparr>
   = Some (Returned
            \<lparr>files = [(''./images/20210511_123456.jpg'', ''A''),
                       (''./images/20210511_123456 (2).jpg'', ''B''),
                       (''./images/20210511_123456 (2) (3).jpg'', ''C'')], stdin = []\<rparr>)"
  by code_simp

subsection \<open>Fallback dates\<close>

text \<open>
  C4.  The claim is that a file with only one of the two fallback dates is renamed to
  the name derived from that date, without a prompt.  The code reads
  \<open>modify_datetime\<close> (or \<open>create_datetime\<close>) in a branch where it was never assigned:
  for every record with a \<open>SourceFile\<close>, every date string and every world, the call
  raises \<open>UnboundLocalError\<close> and the world is left as it was.
\<close>

theorem single_fallback_date_raises:
  "rename_file_if_any_date_metadata_exists (file(''SourceFile'' \<mapsto> source_file))
     (Some modify_date) None w = Some (Raised UnboundLocalError w) \<and>
   rename_file_if_any_date_metadata_exists (file(''SourceFile'' \<mapsto> source_file))
     None (Some create_date) w = Some (Raised UnboundLocalError w)"
  by (simp add: rename_file_if_any_date_metadata_exists_def rename_to_date_def read_local_def
      Let_def)

text \<open>The same through \<open>main\<close>: one file with a modify date only stops the whole run.\<close>

lemma main_single_fallback_date_raises:
  "main [(''./images'', [], [''IMG_0001.jpg''])]
     (\<lambda>paths. [[''SourceFile'' \<mapsto> ''./images/IMG_0001.jpg'',
                  ''File:FileModifyDate'' \<mapsto> ''2021:05:11 12:34:56+02:00'']])
     \<lparr>files = [(''./images/IMG_0001.jpg'', ''A'')], stdin = []\<rparr>
   = Some (Raised UnboundLocalError
            \<lparr>files = [(''./images/IMG_0001.jpg'', ''A'')], stdin = []\<rparr>)"
  by code_simp

subsection \<open>The main loop\<close>

text \<open>
  C5.  The claim is that a file of the valid list whose date does not parse is skipped
  and the run goes on.  The code catches the \<open>ValueError\<close> and then still calls
  \<open>rename_file_if_necessary\<close> with \<open>new_filename\<close>: when the file is the first one the
  variable is unbound and the run stops with \<open>UnboundLocalError\<close>; when it is a later
  one the variable still holds the previous file's target, and the file is renamed to
  that name with a counter.
\<close>

theorem malformed_date_not_skipped:
  "main [(''./images'', [], [''IMG_0001.jpg''])]
     (\<lambda>paths. [[''SourceFile'' \<mapsto> ''./images/IMG_0001.jpg'',
                  ''EXIF:DateTimeOriginal'' \<mapsto> ''2021:05:11'']])
     \<lparr>files = [(''./images/IMG_0001.jpg'', ''A'')], stdin = []\<rparr>
   = Some (Raised UnboundLocalError
            \<lparr>files = [(''./images/IMG_0001.jpg'', ''A'')], stdin = []\<rparr>) \<and>
   main [(''./images'', [], [''IMG_0001.jpg'', ''IMG_0002.jpg''])]
     (\<lambda>paths. [[''SourceFile'' \<mapsto> ''./images/IMG_0001.jpg'',
                  ''EXIF:DateTimeOriginal'' \<mapsto> ''2021:05:11 12:34:56''],
                 [''SourceFile'' \<mapsto> ''./images/IMG_0002.jpg'',
                  ''EXIF:DateTimeOriginal'' \<mapsto> ''2021:05:11'']])
     \<lparr>files = [(''./images/IMG_0001.jpg'', ''A''),
                (''./images/IMG_0002.jpg'', ''B'')], stdin = []\<rparr>
   = Some (Returned
            \<lparr>files = [(''./images/20210511_123456.jpg'', ''A''),
                       (''./images/20210511_123456 (2).jpg'', ''B'')], stdin = []\<rparr>)"
  by code_simp

text \<open>
  C6.  The claim is that a second run on the same directory changes nothing.  Two files
  of different content taken in the same second: the first run names them with the
  timestamp and with the timestamp and \<open>(2)\<close>.  In the second run the derived name of
  the second file is the plain timestamp again, which differs from its current name;
  the renamer reaches the file's own name as first retry, compares the file with itself
  and removes it.
\<close>

theorem second_run_removes_numbered_file:
  "main [(''./images'', [], [''IMG_0001.jpg'', ''IMG_0002.jpg''])] same_capture_time
     \<lparr>files = [(''./images/IMG_0001.jpg'', ''A''),
                (''./images/IMG_0002.jpg'', ''B'')], stdin = []\<rparr>
   = Some (Returned
            \<lparr>files = [(''./images/20210511_123456.jpg'', ''A''),
                       (''./images/20210511_123456 (2).jpg'', ''B'')], stdin = []\<rparr>) \<and>
   main [(''./images'', [], [''20210511_123456.jpg'', ''20210511_123456 (2).jpg''])]
     same_capture_time
     \<lparr>files = [(''./images/20210511_123456.jpg'', ''A''),
                (''./images/20210511_123456 (2).jpg'', ''B'')], stdin = []\<rparr>
   = Some (Returned \<lparr>files = [(''./images/20210511_123456.jpg'', ''A'')], stdin = []\<rparr>)"
  by code_simp

subsection \<open>Classification\<close>

lemma classify_loop_filter:
  "classify_loop metadata (valid_files, invalid_files) =
     (valid_files @ filter has_datetimeoriginal metadata,
      invalid_files @ filter (\<lambda>data. \<not> has_datetimeoriginal data) metadata)"
  by (induction metadata arbitrary: valid_files invalid_files)
     (auto simp: has_datetimeoriginal_def split: option.splits)

text \<open>
  C7, as the code has it.  The result is the input split in two, each part in the
  order of the input: the valid part holds exactly the records with an
  \<open>EXIF:DateTimeOriginal\<close> other than the sentinel, the invalid part all the others.
  The value is not tested for emptiness.
\<close>

theorem classification_partition:
  "find_files_with_datetimeoriginal_metadata get_metadata paths =
     (filter has_datetimeoriginal (get_metadata paths),
      filter (\<lambda>data. \<not> has_datetimeoriginal data) (get_metadata paths))"
  by (simp add: find_files_with_datetimeoriginal_metadata_def classify_loop_filter)

text \<open>
  C7 as stated fails: a record whose \<open>EXIF:DateTimeOriginal\<close> is the empty string is
  not valid by the stated rule, and the code puts it in the valid list.
\<close>

theorem empty_date_classified_valid:
  "find_files_with_datetimeoriginal_metadata
     (\<lambda>paths. [[''SourceFile'' \<mapsto> ''./images/a.jpg'', ''EXIF:DateTimeOriginal'' \<mapsto> []]])
     [''./images/a.jpg'']
   = ([[''SourceFile'' \<mapsto> ''./images/a.jpg'', ''EXIF:DateTimeOriginal'' \<mapsto> []]], []) \<and>
   \<not> valid_per_spec [''SourceFile'' \<mapsto> ''./images/a.jpg'', ''EXIF:DateTimeOriginal'' \<mapsto> []]"
  by (simp add: find_files_with_datetimeoriginal_metadata_def valid_per_spec_def)

subsection \<open>The derived file name\<close>

lemma digit_char_no_sep: "CHR ''/'' \<notin> set [digit_char d]"
proof -
  have "digit_char d \<in> set ''0123456789''"
    unfolding digit_char_def by (rule nth_mem) simp
  then show ?thesis by auto
qed

lemma str_nat_no_sep: "CHR ''/'' \<notin> set (str_nat n)"
proof (induction n rule: str_nat.induct)
  case (1 n)
  show ?case
  proof (cases "n < 10")
    case True
    then show ?thesis using digit_char_no_sep [of n] by (subst str_nat.simps) simp
  next
    case False
    then show ?thesis
      using 1 digit_char_no_sep [of "n mod 10"] by (subst str_nat.simps) simp
  qed
qed

lemma zero_pad_no_sep: "CHR ''/'' \<notin> set (zero_pad k n)"
  by (auto simp: zero_pad_def str_nat_no_sep)

lemma get_filename_from_datetime_no_sep: "CHR ''/'' \<notin> set (get_filename_from_datetime dt)"
  by (simp add: get_filename_from_datetime_def zero_pad_no_sep)

lemma char_lower_sep: "char_lower c = CHR ''/'' \<Longrightarrow> c = CHR ''/''"
  by (auto simp: char_lower_def latin1_capitals_def latin1_smalls_def
           split: option.splits if_splits)

lemma str_lower_no_sep: "CHR ''/'' \<notin> set s \<Longrightarrow> CHR ''/'' \<notin> set (str_lower s)"
proof
  assume n: "CHR ''/'' \<notin> set s" and "CHR ''/'' \<in> set (str_lower s)"
  then obtain c where "c \<in> set s" "char_lower c = CHR ''/''"
    by (auto simp: str_lower_def)
  with n show False by (auto dest: char_lower_sep)
qed

lemma path_head_append:
  assumes "CHR ''/'' \<notin> set name"
  shows "path_head (dir @ CHR ''/'' # name) = dir @ [CHR ''/'']"
proof -
  have "\<forall>c \<in> set (rev name). \<not> c \<noteq> CHR ''/'' \<longrightarrow> False" using assms by auto
  then have "dropWhile (\<lambda>c. c \<noteq> CHR ''/'') (rev name @ CHR ''/'' # rev dir) = CHR ''/'' # rev dir"
    by (subst dropWhile_append2) auto
  then show ?thesis by (simp add: path_head_def)
qed

lemma os_path_basename_append:
  assumes "CHR ''/'' \<notin> set name"
  shows "os_path_basename (dir @ CHR ''/'' # name) = name"
proof -
  have "\<forall>c \<in> set (rev name). c \<noteq> CHR ''/''" using assms by auto
  then have "takeWhile (\<lambda>c. c \<noteq> CHR ''/'') (rev name @ CHR ''/'' # rev dir) = rev name"
    by (subst takeWhile_append2) auto
  then show ?thesis by (simp add: os_path_basename_def)
qed

lemma rstrip_sep_snoc:
  "dir \<noteq> [] \<Longrightarrow> last dir \<noteq> CHR ''/'' \<Longrightarrow> rstrip_sep (dir @ [CHR ''/'']) = dir"
  by (cases dir rule: rev_cases) (auto simp: rstrip_sep_def)

lemma rstrip_sep_last:
  "\<not> list_all (\<lambda>c. c = CHR ''/'') s \<Longrightarrow> rstrip_sep s \<noteq> [] \<and> last (rstrip_sep s) \<noteq> CHR ''/''"
proof (induction s rule: rev_induct)
  case Nil
  then show ?case by simp
next
  case (snoc x xs)
  then show ?case by (cases "x = CHR ''/''") (auto simp: rstrip_sep_def)
qed

lemma os_path_dirname_shape:
  "\<not> list_all (\<lambda>c. c = CHR ''/'') (os_path_dirname p) \<Longrightarrow>
     os_path_dirname p \<noteq> [] \<and> last (os_path_dirname p) \<noteq> CHR ''/''"
  by (auto simp: os_path_dirname_def Let_def rstrip_sep_last split: if_splits)

lemma os_path_dirname_append:
  assumes "\<not> list_all (\<lambda>c. c = CHR ''/'') dir" "dir \<noteq> []" "last dir \<noteq> CHR ''/''"
    and "CHR ''/'' \<notin> set name"
  shows "os_path_dirname (dir @ CHR ''/'' # name) = dir"
  using assms by (simp add: os_path_dirname_def Let_def path_head_append rstrip_sep_snoc)

text \<open>The name \<open>strftime\<close> gives a valid timestamp is fifteen characters long.\<close>

lemma str_nat_length: "0 < k \<Longrightarrow> n < 10 ^ k \<Longrightarrow> length (str_nat n) \<le> k"
proof (induction k arbitrary: n)
  case 0
  then show ?case by simp
next
  case (Suc k)
  show ?case
  proof (cases "n < 10")
    case True
    then show ?thesis by (subst str_nat.simps) simp
  next
    case False
    with Suc.prems have k: "0 < k" by (cases k) auto
    from Suc.prems have "n div 10 < 10 ^ k" by (simp add: less_mult_imp_div_less mult.commute)
    with k have "length (str_nat (n div 10)) \<le> k" by (rule Suc.IH)
    with False show ?thesis by (subst str_nat.simps) simp
  qed
qed

lemma zero_pad_length: "0 < k \<Longrightarrow> n < 10 ^ k \<Longrightarrow> length (zero_pad k n) = k"
  using str_nat_length [of k n] by (simp add: zero_pad_def)

lemma get_filename_from_datetime_length:
  assumes "valid_datetime dt"
  shows "length (get_filename_from_datetime dt) = 15"
proof -
  from assms have "year dt < 10 ^ 4" "month dt < 10 ^ 2" "hour dt < 10 ^ 2"
    "minute dt < 10 ^ 2" "second dt < 10 ^ 2"
    by (auto simp: valid_datetime_def)
  moreover from assms have "day dt \<le> 31"
    by (auto simp: valid_datetime_def days_in_month_def split: if_splits)
  then have "day dt < 10 ^ 2" by simp
  ultimately show ?thesis
    by (simp add: get_filename_from_datetime_def zero_pad_length)
qed

text \<open>
  The name of a valid timestamp digit by digit: four digits of the year, two of the
  month, two of the day, an underscore, two digits of the hour, of the minute and of
  the second.
\<close>

lemma digit_char_mod: "digit_char (n mod 10) = digit_char n"
  by (simp add: digit_char_def)

lemma digit_char_0: "digit_char 0 = CHR ''0''"
  by (simp add: digit_char_def)

lemma str_nat_1: "n < 10 \<Longrightarrow> str_nat n = [digit_char n]"
  by (subst str_nat.simps) simp

lemma str_nat_2: "10 \<le> n \<Longrightarrow> n < 100 \<Longrightarrow> str_nat n = [digit_char (n div 10), digit_char n]"
  by (subst str_nat.simps) (simp add: str_nat_1 digit_char_mod)

lemma str_nat_3:
  assumes "100 \<le> n" "n < 1000"
  shows "str_nat n = [digit_char (n div 100), digit_char (n div 10), digit_char n]"
proof -
  have d: "n div 10 div 10 = n div 100" using div_mult2_eq [of n 10 10] by simp
  from assms have "10 \<le> n div 10" "n div 10 < 100" by auto
  then have "str_nat (n div 10) = [digit_char (n div 10 div 10), digit_char (n div 10)]"
    by (rule str_nat_2)
  with assms d show ?thesis by (subst str_nat.simps) (simp add: digit_char_mod)
qed

lemma str_nat_4:
  assumes "1000 \<le> n" "n < 10000"
  shows "str_nat n = [digit_char (n div 1000), digit_char (n div 100), digit_char (n div 10),
                      digit_char n]"
proof -
  have d: "n div 10 div 100 = n div 1000" "n div 10 div 10 = n div 100"
    using div_mult2_eq [of n 10 100] div_mult2_eq [of n 10 10] by simp_all
  from assms have "100 \<le> n div 10" "n div 10 < 1000" by auto
  then have "str_nat (n div 10) =
      [digit_char (n div 10 div 100), digit_char (n div 10 div 10), digit_char (n div 10)]"
    by (rule str_nat_3)
  with assms d show ?thesis by (subst str_nat.simps) (simp add: digit_char_mod)
qed

lemma zero_pad_2: "n < 100 \<Longrightarrow> zero_pad 2 n = [digit_char (n div 10), digit_char n]"
  by (cases "n < 10") (simp_all add: zero_pad_def str_nat_1 str_nat_2 digit_char_0)

lemma replicate_zeros:
  "replicate 3 c = [c, c, c]" "replicate 2 c = [c, c]" "replicate (Suc 0) c = [c]"
  by (simp_all add: numeral_3_eq_3 numeral_2_eq_2)

lemma zero_pad_4:
  assumes "n < 10000"
  shows "zero_pad 4 n =
           [digit_char (n div 1000), digit_char (n div 100), digit_char (n div 10), digit_char n]"
proof -
  consider "n < 10" | "10 \<le> n" "n < 100" | "100 \<le> n" "n < 1000" | "1000 \<le> n"
    by linarith
  then show ?thesis
  proof cases
    case 1
    then show ?thesis by (simp add: zero_pad_def str_nat_1 digit_char_0 replicate_zeros)
  next
    case 2
    then show ?thesis by (simp add: zero_pad_def str_nat_2 digit_char_0 replicate_zeros)
  next
    case 3
    then show ?thesis by (simp add: zero_pad_def str_nat_3 digit_char_0 replicate_zeros)
  next
    case 4
    with assms show ?thesis by (simp add: zero_pad_def str_nat_4)
  qed
qed

lemma get_filename_from_datetime_digits:
  assumes "valid_datetime dt"
  shows "get_filename_from_datetime dt =
           [digit_char (year dt div 1000), digit_char (year dt div 100),
            digit_char (year dt div 10), digit_char (year dt),
            digit_char (month dt div 10), digit_char (month dt),
            digit_char (day dt div 10), digit_char (day dt),
            CHR ''_'',
            digit_char (hour dt div 10), digit_char (hour dt),
            digit_char (minute dt div 10), digit_char (minute dt),
            digit_char (second dt div 10), digit_char (second dt)]"
proof -
  from assms have "year dt < 10000" "month dt < 100" "hour dt < 100"
    "minute dt < 100" "second dt < 100"
    by (auto simp: valid_datetime_def)
  moreover from assms have "day dt \<le> 31"
    by (auto simp: valid_datetime_def days_in_month_def split: if_splits)
  then have "day dt < 100" by simp
  ultimately show ?thesis
    by (simp add: get_filename_from_datetime_def zero_pad_2 zero_pad_4)
qed

text \<open>
  What \<open>get_new_filename\<close> gets right.  For every timestamp and every record whose
  \<open>SourceFile\<close> has a directory part that is neither empty nor made of slashes only,
  and whose file name has a dot in it (the last dot-separated segment of the path holds
  no slash), the derived path is in the directory of the original path and its file
  name is the formatted timestamp, a dot and the lowercased last segment.
\<close>

lemma get_new_filename_keeps_directory:
  assumes "file ''SourceFile'' = Some source_file"
    and "\<not> list_all (\<lambda>c. c = CHR ''/'') (os_path_dirname source_file)"
    and "CHR ''/'' \<notin> set (last (str_split CHR ''.'' source_file))"
  shows "\<exists>target. get_new_filename file dt = Inr target \<and>
           os_path_dirname target = os_path_dirname source_file \<and>
           os_path_basename target =
             get_filename_from_datetime dt @ ''.'' @
             str_lower (last (str_split CHR ''.'' source_file))"
proof -
  let ?name = "get_filename_from_datetime dt @ ''.'' @
                 str_lower (last (str_split CHR ''.'' source_file))"
  have name: "CHR ''/'' \<notin> set ?name"
    using assms(3) by (simp add: get_filename_from_datetime_no_sep str_lower_no_sep)
  have t: "get_new_filename file dt = Inr (os_path_dirname source_file @ ''/'' @ ?name)"
    using assms(1) by (simp add: get_new_filename_def)
  have d: "os_path_dirname (os_path_dirname source_file @ ''/'' @ ?name) =
             os_path_dirname source_file"
    using os_path_dirname_shape [OF assms(2)] assms(2) name
      os_path_dirname_append [of "os_path_dirname source_file" ?name]
    by simp
  have b: "os_path_basename (os_path_dirname source_file @ ''/'' @ ?name) = ?name"
    using name os_path_basename_append [of ?name "os_path_dirname source_file"] by simp
  show ?thesis using t d b by simp
qed

text \<open>
  The scenario of the specification: a JPEG in \<open>./images\<close> whose
  \<open>EXIF:DateTimeOriginal\<close> is \<open>2021:05:11 12:34:56\<close> gets the target
  \<open>./images/20210511_123456.jpg\<close>.
\<close>

lemma get_new_filename_jpeg_scenario:
  "[''SourceFile'' \<mapsto> ''./images/IMG_0001.JPG''] ''SourceFile'' = Some ''./images/IMG_0001.JPG'' \<and>
   \<not> list_all (\<lambda>c. c = CHR ''/'') (os_path_dirname ''./images/IMG_0001.JPG'') \<and>
   CHR ''/'' \<notin> set (last (str_split CHR ''.'' ''./images/IMG_0001.JPG'')) \<and>
   get_datetime ''2021:05:11 12:34:56'' =
     Inr \<lparr>year = 2021, month = 5, day = 11, hour = 12, minute = 34, second = 56\<rparr> \<and>
   get_new_filename [''SourceFile'' \<mapsto> ''./images/IMG_0001.JPG'']
     \<lparr>year = 2021, month = 5, day = 11, hour = 12, minute = 34, second = 56\<rparr> =
     Inr ''./images/20210511_123456.jpg'' \<and>
   os_path_dirname ''./images/20210511_123456.jpg'' = os_path_dirname ''./images/IMG_0001.JPG'' \<and>
   os_path_basename ''./images/20210511_123456.jpg'' = ''20210511_123456.jpg''"
proof -
  let ?file = "[''SourceFile'' \<mapsto> ''./images/IMG_0001.JPG'']"
  let ?dt = "\<lparr>year = 2021, month = 5, day = 11, hour = 12, minute = 34, second = 56\<rparr>"
  have h1: "?file ''SourceFile'' = Some ''./images/IMG_0001.JPG''" by simp
  have h2: "\<not> list_all (\<lambda>c. c = CHR ''/'') (os_path_dirname ''./images/IMG_0001.JPG'')"
    by code_simp
  have h3: "CHR ''/'' \<notin> set (last (str_split CHR ''.'' ''./images/IMG_0001.JPG''))"
    by code_simp
  have p: "get_datetime ''2021:05:11 12:34:56'' = Inr ?dt" by code_simp
  have v: "get_new_filename ?file ?dt = Inr ''./images/20210511_123456.jpg''" by code_simp
  have n: "get_filename_from_datetime ?dt @ ''.'' @
             str_lower (last (str_split CHR ''.'' ''./images/IMG_0001.JPG'')) =
           ''20210511_123456.jpg''"
    by code_simp
  from get_new_filename_keeps_directory [of ?file "''./images/IMG_0001.JPG''" ?dt, OF h1 h2 h3] v n
  have "os_path_dirname ''./images/20210511_123456.jpg'' = os_path_dirname ''./images/IMG_0001.JPG'' \<and>
        os_path_basename ''./images/20210511_123456.jpg'' = ''20210511_123456.jpg''"
    by auto
  with h1 h2 h3 p v show ?thesis by blast
qed

text \<open>
  C8.  The claim is that, for every timestamp and file record, the derived path keeps
  the directory of the original path and is named by the timestamp, a dot and the
  lowercased extension.  The code takes the extension from the last dot-separated
  segment of the whole path, not of the file name.  \<open>list_files\<close> hands over a file
  named \<open>PNG\<close>, which has no dot; the only dot of \<open>./images/PNG\<close> is the leading
  one, the segment after it is \<open>/images/PNG\<close>, and the derived path
  \<open>./images/20210511_123456./images/png\<close> lies in another directory, under the file
  name \<open>png\<close>.
\<close>

theorem dotless_name_leaves_directory:
  "list_files [(''./images'', [], [''PNG''])] = [''./images/PNG''] \<and>
   get_datetime ''2021:05:11 12:34:56'' =
     Inr \<lparr>year = 2021, month = 5, day = 11, hour = 12, minute = 34, second = 56\<rparr> \<and>
   get_new_filename [''SourceFile'' \<mapsto> ''./images/PNG'']
     \<lparr>year = 2021, month = 5, day = 11, hour = 12, minute = 34, second = 56\<rparr> =
     Inr ''./images/20210511_123456./images/png'' \<and>
   os_path_dirname ''./images/PNG'' = ''./images'' \<and>
   os_path_dirname ''./images/20210511_123456./images/png'' =
     ''./images/20210511_123456./images'' \<and>
   os_path_basename ''./images/20210511_123456./images/png'' = ''png''"
  by code_simp

text \<open>
  A record whose \<open>SourceFile\<close> has no directory part, which \<open>main\<close> never passes: the
  empty directory and the \<open>/\<close> the code appends make a path in the root directory.
\<close>

lemma get_new_filename_bare_name_moves_to_root:
  "get_new_filename [''SourceFile'' \<mapsto> ''a.jpg'']
     \<lparr>year = 2021, month = 5, day = 11, hour = 12, minute = 34, second = 56\<rparr> =
     Inr ''/20210511_123456.jpg'' \<and>
   os_path_dirname ''a.jpg'' = [] \<and>
   os_path_dirname ''/20210511_123456.jpg'' = ''/'' \<and>
   os_path_dirname ''/20210511_123456.jpg'' \<noteq> os_path_dirname ''a.jpg''"
  by code_simp

subsection \<open>The time zone\<close>

lemma cut_out_time_zone_plus:
  "CHR ''+'' \<notin> set d \<Longrightarrow> cut_out_time_zone (d @ CHR ''+'' # tz) = d"
  by (simp add: cut_out_time_zone_def str_split_once_at_sep)

lemma cut_out_time_zone_no_plus: "CHR ''+'' \<notin> set s \<Longrightarrow> cut_out_time_zone s = s"
  by (simp add: cut_out_time_zone_def str_split_once_no_sep)

text \<open>A string that \<open>get_datetime\<close> accepts holds digits, colons and white space only.\<close>

lemma digit_value_not_plus: "digit_value c = Some x \<Longrightarrow> c \<noteq> CHR ''+''"
  by (auto simp: digit_value_def)

lemma is_space_not_plus: "is_space c \<Longrightarrow> c \<noteq> CHR ''+''"
  by (auto simp: is_space_def)

lemma directive_consumes:
  "directive two one s = Some (n, r) \<Longrightarrow> \<exists>p. s = p @ r \<and> CHR ''+'' \<notin> set p"
  by (auto simp: directive_def split: list.splits option.splits if_splits
           dest: digit_value_not_plus)

lemma directive_Y_consumes:
  "directive_Y s = Some (n, r) \<Longrightarrow> \<exists>p. s = p @ r \<and> CHR ''+'' \<notin> set p"
  by (auto simp: directive_Y_def split: list.splits option.splits if_splits
           dest: digit_value_not_plus)

lemma directive_d_consumes:
  "directive_d s = Some (n, r) \<Longrightarrow> \<exists>p. s = p @ r \<and> CHR ''+'' \<notin> set p"
  by (auto simp: directive_d_def split: list.splits option.splits if_splits
           dest: digit_value_not_plus directive_consumes)

lemma colon_consumes:
  "colon s = Some r \<Longrightarrow> \<exists>p. s = p @ r \<and> CHR ''+'' \<notin> set p"
  by (auto simp: colon_def split: list.splits if_splits)

lemma spaces_consumes:
  assumes "spaces s = Some r"
  shows "\<exists>p. s = p @ r \<and> CHR ''+'' \<notin> set p"
proof -
  from assms obtain c rest where
    s: "s = c # rest" and c: "is_space c" and r: "r = dropWhile is_space rest"
    by (auto simp: spaces_def split: list.splits if_splits)
  have "s = (c # takeWhile is_space rest) @ r" by (simp add: s r)
  moreover have "CHR ''+'' \<notin> set (c # takeWhile is_space rest)"
    using c is_space_not_plus by (auto dest: set_takeWhileD)
  ultimately show ?thesis by blast
qed

lemma strptime_match_no_plus:
  assumes "strptime_match s = Some dt"
  shows "CHR ''+'' \<notin> set s"
proof -
  from assms obtain Y s1 s2 m s3 s4 d s5 s6 H s7 s8 M s9 s10 S where
    steps: "directive_Y s = Some (Y, s1)" "colon s1 = Some s2"
      "directive_m s2 = Some (m, s3)" "colon s3 = Some s4"
      "directive_d s4 = Some (d, s5)" "spaces s5 = Some s6"
      "directive_H s6 = Some (H, s7)" "colon s7 = Some s8"
      "directive_M s8 = Some (M, s9)" "colon s9 = Some s10"
      "directive_S s10 = Some (S, [])"
    by (auto simp: strptime_match_def split: Option.bind_splits if_splits)
  from steps(11) have "CHR ''+'' \<notin> set s10"
    unfolding directive_S_def by (auto dest: directive_consumes)
  with steps(10) have "CHR ''+'' \<notin> set s9" by (auto dest: colon_consumes)
  with steps(9) have "CHR ''+'' \<notin> set s8"
    unfolding directive_M_def by (auto dest: directive_consumes)
  with steps(8) have "CHR ''+'' \<notin> set s7" by (auto dest: colon_consumes)
  with steps(7) have "CHR ''+'' \<notin> set s6"
    unfolding directive_H_def by (auto dest: directive_consumes)
  with steps(6) have "CHR ''+'' \<notin> set s5" by (auto dest: spaces_consumes)
  with steps(5) have "CHR ''+'' \<notin> set s4" by (auto dest: directive_d_consumes)
  with steps(4) have "CHR ''+'' \<notin> set s3" by (auto dest: colon_consumes)
  with steps(3) have "CHR ''+'' \<notin> set s2"
    unfolding directive_m_def by (auto dest: directive_consumes)
  with steps(2) have "CHR ''+'' \<notin> set s1" by (auto dest: colon_consumes)
  with steps(1) show ?thesis by (auto dest: directive_Y_consumes)
qed

lemma get_datetime_no_plus: "get_datetime d = Inr dt \<Longrightarrow> CHR ''+'' \<notin> set d"
  by (auto simp: get_datetime_def split: option.splits if_splits dest: strptime_match_no_plus)

text \<open>
  What \<open>cut_out_time_zone\<close> gets right.  When a string that \<open>get_datetime\<close> parses is
  followed by a suffix that starts with \<open>+\<close>, the result is the string without the
  suffix, and it parses to the same timestamp; a string with no \<open>+\<close> in it is returned
  as it is.
\<close>

lemma cut_out_time_zone_plus_suffix:
  "(get_datetime d = Inr dt \<longrightarrow>
      cut_out_time_zone (d @ ''+'' @ tz) = d \<and>
      get_datetime (cut_out_time_zone (d @ ''+'' @ tz)) = Inr dt) \<and>
   (CHR ''+'' \<notin> set s \<longrightarrow> cut_out_time_zone s = s)"
  using get_datetime_no_plus [of d dt]
  by (auto simp: cut_out_time_zone_plus cut_out_time_zone_no_plus)

lemma cut_out_time_zone_plus_suffix_example:
  "get_datetime ''2021:05:11 12:34:56'' =
     Inr \<lparr>year = 2021, month = 5, day = 11, hour = 12, minute = 34, second = 56\<rparr> \<and>
   cut_out_time_zone ''2021:05:11 12:34:56+02:00'' = ''2021:05:11 12:34:56'' \<and>
   get_datetime (cut_out_time_zone ''2021:05:11 12:34:56+02:00'') =
     Inr \<lparr>year = 2021, month = 5, day = 11, hour = 12, minute = 34, second = 56\<rparr> \<and>
   CHR ''+'' \<notin> set ''2021:05:11 12:34:56'' \<and>
   cut_out_time_zone ''2021:05:11 12:34:56'' = ''2021:05:11 12:34:56''"
proof -
  have p: "get_datetime ''2021:05:11 12:34:56'' =
     Inr \<lparr>year = 2021, month = 5, day = 11, hour = 12, minute = 34, second = 56\<rparr>"
    by code_simp
  have n: "CHR ''+'' \<notin> set ''2021:05:11 12:34:56''" by simp
  show ?thesis
    using p n
      cut_out_time_zone_plus_suffix [of "''2021:05:11 12:34:56''"
        "\<lparr>year = 2021, month = 5, day = 11, hour = 12, minute = 34, second = 56\<rparr>"
        "''02:00''" "''2021:05:11 12:34:56''"]
    by simp
qed

text \<open>
  C9.  The claim is that \<open>cut_out_time_zone\<close> removes the time zone suffix of every
  fallback date, so that the result parses.  The code cuts at the first \<open>+\<close> only.
  For a time zone west of Greenwich the suffix is \<open>-05:00\<close>, which holds no \<open>+\<close>:
  the string comes back as it is and \<open>get_datetime\<close> raises \<open>ValueError\<close> on it.
  In \<open>main\<close>, a file with both fallback dates in such a zone stops the run with that
  error, before the operator is asked anything.
\<close>

theorem cut_out_time_zone_keeps_minus_suffix:
  "cut_out_time_zone ''2021:05:11 12:34:56-05:00'' = ''2021:05:11 12:34:56-05:00'' \<and>
   get_datetime (cut_out_time_zone ''2021:05:11 12:34:56-05:00'') = Inl ValueError \<and>
   main [(''./images'', [], [''IMG_0001.jpg''])]
     (\<lambda>paths. [[''SourceFile'' \<mapsto> ''./images/IMG_0001.jpg'',
                  ''File:FileModifyDate'' \<mapsto> ''2021:05:11 12:34:56-05:00'',
                  ''File:FileCreateDate'' \<mapsto> ''2021:05:10 08:00:00-05:00'']])
     \<lparr>files = [(''./images/IMG_0001.jpg'', ''A'')], stdin = [''M'']\<rparr>
   = Some (Raised ValueError
            \<lparr>files = [(''./images/IMG_0001.jpg'', ''A'')], stdin = [''M'']\<rparr>)"
  by code_simp

subsection \<open>File enumeration\<close>

lemma list_files_in_append:
  "list_files_in root names file_list =
     file_list @ map (os_path_join root)
       (filter (\<lambda>file. str_lower (last (str_split CHR ''.'' file)) \<in> set multimediaFormats) names)"
  by (induction names arbitrary: file_list) auto

lemma list_files_walk_append:
  "list_files_walk walk file_list = file_list @ list_files_walk walk []"
proof (induction walk arbitrary: file_list)
  case Nil
  then show ?case by simp
next
  case (Cons t walk)
  obtain root dirs names where t: "t = (root, dirs, names)" by (cases t)
  have "list_files_walk (t # walk) file_list =
          list_files_walk walk (list_files_in root names file_list)"
    by (simp add: t)
  also have "\<dots> = list_files_in root names file_list @ list_files_walk walk []"
    by (rule Cons.IH)
  also have "\<dots> = file_list @ (list_files_in root names [] @ list_files_walk walk [])"
    by (simp add: list_files_in_append [of root names file_list]
        list_files_in_append [of root names "[]"])
  also have "list_files_in root names [] @ list_files_walk walk [] = list_files_walk (t # walk) []"
    using Cons.IH [of "list_files_in root names []"] by (simp add: t)
  finally show ?case .
qed

lemma list_files_Cons:
  "list_files ((root, dirs, names) # walk) =
     map (os_path_join root)
       (filter (\<lambda>file. str_lower (last (str_split CHR ''.'' file)) \<in> set multimediaFormats) names)
     @ list_files walk"
  using list_files_walk_append [of walk "list_files_in root names []"]
  by (simp add: list_files_def list_files_in_append [of root names "[]"])

lemma list_files_app: "list_files (w1 @ w2) = list_files w1 @ list_files w2"
proof (induction w1)
  case Nil
  show ?case by (simp add: list_files_def)
next
  case (Cons t w1)
  obtain root dirs names where t: "t = (root, dirs, names)" by (cases t)
  show ?case using Cons.IH by (simp add: t list_files_Cons)
qed

text \<open>
  C10.  A file whose name holds no dot, wherever it stands in the walk, contributes its
  joined path to the result if and only if its whole lowercased name is one of the
  allow-list entries: the result is what the walk gives before the file, then the path
  of the file or nothing, then what the walk gives after it.
\<close>

theorem list_files_dotless:
  assumes "CHR ''.'' \<notin> set file"
  shows "list_files (pre @ [(root, dirs, before @ [file] @ after)] @ post) =
           list_files (pre @ [(root, dirs, before)]) @
           (if str_lower file \<in> set multimediaFormats then [os_path_join root file] else []) @
           list_files ((root, dirs, after) # post)"
  using assms
  by (simp add: list_files_app list_files_Cons str_split_no_sep) (simp add: list_files_def)

text \<open>A file named \<open>PNG\<close> is listed; a file named \<open>README\<close> is not.\<close>

theorem list_files_dotless_witness:
  "CHR ''.'' \<notin> set ''PNG'' \<and>
   list_files [(''./images'', [], [''PNG''])] = [''./images/PNG''] \<and>
   CHR ''.'' \<notin> set ''README'' \<and>
   list_files [(''./images'', [], [''README''])] = []"
proof -
  have h: "CHR ''.'' \<notin> set ''PNG''" by simp
  have h': "CHR ''.'' \<notin> set ''README''" by simp
  have e: "str_lower ''PNG'' \<in> set multimediaFormats" by code_simp
  have e': "str_lower ''README'' \<notin> set multimediaFormats" by code_simp
  have j: "os_path_join ''./images'' ''PNG'' = ''./images/PNG''" by code_simp
  have n: "list_files [(''./images'', [], [])] = []" by code_simp
  show ?thesis
    using h h' e e' j n
      list_files_dotless [OF h, of "[]" "''./images''" "[]" "[]" "[]" "[]"]
      list_files_dotless [OF h', of "[]" "''./images''" "[]" "[]" "[]" "[]"]
    by simp
qed

end
